theory Spec2Isabelle
  imports Main "HOL-Library.AList"
begin

section \<open>Values, exceptions and observable output\<close>

text \<open>
  The planner's raw output is parsed JSON: a Python \<open>Dict[str, Any]\<close> whose values are
  the values JSON parsing produces. A dict is an association list in insertion order,
  read with \<open>map_of\<close>; a float keeps a mantissa and an exponent, which nothing below
  inspects. A str is the list of the bytes of its UTF-8 encoding. JSON text can
  escape a lone surrogate (\<open>\ud800\<close>), and parsing it gives a str that holds one:
  such a str has no UTF-8 encoding, and its bytes here are those of the encoding
  extended to surrogates, which writes each one as \<open>ED\<close>, a byte from \<open>A0\<close> to
  \<open>BF\<close>, and a third byte.
\<close>

datatype pyval =
    PNone
  | PBool bool
  | PInt int
  | PFloat int int
  | PStr string
  | PList "pyval list"
  | PDict "(string \<times> pyval) list"

type_synonym pydict = "(string \<times> pyval) list"

text \<open>
  One entry of a pydantic \<open>ValidationError\<close>: where the mismatch is (a field name,
  then indices into a list), what kind it is, and the input that was rejected.
\<close>

datatype loc_item = LocField string | LocIndex nat

datatype error_type = missing | string_type | list_type

type_synonym error_details = "(loc_item list \<times> error_type \<times> pyval) list"

text \<open>
  The exceptions the sources raise or catch. \<open>KeyboardInterrupt\<close> derives from
  \<open>BaseException\<close> only, so \<open>except Exception\<close> lets it through; every other one is an
  \<open>Exception\<close>. \<open>RuntimeError\<close> carries its cause (\<open>raise ... from e\<close>);
  \<open>ValueError\<close> is what the serialisation of a \<open>ValidationError\<close> raises.
\<close>

datatype exn =
    EnvironmentError string
  | RuntimeError string exn
  | ValidationError error_details
  | ValueError
  | OtherException string
  | KeyboardInterrupt

fun is_Exception :: "exn \<Rightarrow> bool" where
  "is_Exception KeyboardInterrupt = False"
| "is_Exception _ = True"

fun is_ValidationError :: "exn \<Rightarrow> bool" where
  "is_ValidationError (ValidationError _) = True"
| "is_ValidationError _ = False"

text \<open>
  What a run shows: a record sent to a named logger, or a line printed on standard
  output. Every log message of the sources that interpolates an exception does so at
  its end; the record keeps the literal part of the message and that exception.
  Emitting a log record raises nothing, as the logging module handles the errors of
  its handlers itself, and writing a line to standard output is taken to succeed
  whatever the text.
\<close>

datatype level = INFO | WARNING | ERROR | CRITICAL

datatype event =
    Log string level string "exn option"
  | Print string

section \<open>The plan schema (schemas/planner\_schema.py)\<close>

text \<open>
  \<^verbatim>\<open>
  class PlannerPlan(BaseModel):
      query_type: str = Field(..., description=...)
      sub_queries: List[str] = Field(..., description=...)
  \<close>
  Both fields are required (\<open>...\<close>) and carry no constraint besides their type.
  The class is a pydantic model: its constructor checks each keyword argument against
  the annotation of the field of that name. The functions below are that check for
  the two annotations used here, \<open>str\<close> and \<open>List[str]\<close>, on JSON values.
\<close>

record PlannerPlan =
  query_type :: string
  sub_queries :: "string list"

text \<open>A \<open>str\<close> field takes a string as it is and rejects every other JSON value.\<close>

fun validate_str :: "loc_item list \<Rightarrow> pyval \<Rightarrow> error_details + string" where
  "validate_str loc (PStr s) = Inr s"
| "validate_str loc v = Inl [(loc, string_type, v)]"

text \<open>
  The items of a \<open>List[str]\<close> are validated one by one, each under its index; the
  errors of all items are collected.
\<close>

fun validate_items :: "loc_item list \<Rightarrow> nat \<Rightarrow> pyval list \<Rightarrow> error_details \<times> string list" where
  "validate_items loc i [] = ([], [])"
| "validate_items loc i (v # vs) =
     (let (es, ss) = validate_items loc (Suc i) vs
      in case validate_str (loc @ [LocIndex i]) v of
           Inl e \<Rightarrow> (e @ es, ss)
         | Inr s \<Rightarrow> (es, s # ss))"

fun validate_list_str :: "loc_item list \<Rightarrow> pyval \<Rightarrow> error_details + string list" where
  "validate_list_str loc (PList vs) =
     (case validate_items loc 0 vs of
        ([], ss) \<Rightarrow> Inr ss
      | (es, ss) \<Rightarrow> Inl es)"
| "validate_list_str loc v = Inl [(loc, list_type, v)]"

text \<open>
  A required field: absent from the data it is a \<open>missing\<close> error, whose input is
  the whole of the data.
\<close>

definition validate_field ::
  "pydict \<Rightarrow> string \<Rightarrow> (loc_item list \<Rightarrow> pyval \<Rightarrow> error_details + 'a) \<Rightarrow> error_details + 'a" where
  "validate_field data name validate =
     (case map_of data name of
        None \<Rightarrow> Inl [([LocField name], missing, PDict data)]
      | Some v \<Rightarrow> validate [LocField name] v)"

fun errors_of :: "error_details + 'a \<Rightarrow> error_details" where
  "errors_of (Inl es) = es"
| "errors_of (Inr _) = []"

text \<open>
  \<open>PlannerPlan(**data)\<close>: the fields are validated in declaration order, keys that
  name no field are ignored, and the mismatches of both fields are raised together.
\<close>

definition PlannerPlan_init :: "pydict \<Rightarrow> exn + PlannerPlan" where
  "PlannerPlan_init data =
     (case (validate_field data ''query_type'' validate_str,
            validate_field data ''sub_queries'' validate_list_str) of
        (Inr q, Inr ss) \<Rightarrow> Inr \<lparr>query_type = q, sub_queries = ss\<rparr>
      | (r1, r2) \<Rightarrow> Inl (ValidationError (errors_of r1 @ errors_of r2)))"

text \<open>The field mapping of a plan (\<open>plan.model_dump()\<close>).\<close>

definition model_dump :: "PlannerPlan \<Rightarrow> pydict" where
  "model_dump plan =
     [(''query_type'', PStr (query_type plan)),
      (''sub_queries'', PList (map PStr (sub_queries plan)))]"

section \<open>The planner's validation utility (agents/planner.py)\<close>

text \<open>
  \<open>ve.json()\<close> writes the errors as JSON text, each with its input. The text is
  UTF-8, so the call raises \<open>ValueError\<close> when an input holds, at any depth, in a
  value or in a key, a str with a lone surrogate. \<open>json_raises\<close> is the exception
  of the call, if any.
\<close>

fun has_surrogate :: "string \<Rightarrow> bool" where
  "has_surrogate (a # b # cs) =
     ((of_char a = (0xED :: nat) \<and> (0xA0 :: nat) \<le> of_char b \<and> of_char b \<le> (0xBF :: nat)) \<or>
      has_surrogate (b # cs))"
| "has_surrogate cs = False"

primrec unencodable :: "pyval \<Rightarrow> bool" where
  "unencodable PNone = False"
| "unencodable (PBool b) = False"
| "unencodable (PInt i) = False"
| "unencodable (PFloat m e) = False"
| "unencodable (PStr s) = has_surrogate s"
| "unencodable (PList vs) = list_ex id (map unencodable vs)"
| "unencodable (PDict kvs) =
     list_ex (\<lambda>(k, b). has_surrogate k \<or> b) (map (map_prod id unencodable) kvs)"

fun json_raises :: "exn \<Rightarrow> exn option" where
  "json_raises (ValidationError details) =
     (if list_ex (\<lambda>(loc, type, input). unencodable input) details then Some ValueError
      else None)"
| "json_raises e = None"

text \<open>
  \<^verbatim>\<open>
  def safe_validate_plan(raw_data):
      try:
          plan = PlannerPlan(**raw_data)
          logger.info(f"Validation Success: Query classified as '{plan.query_type}'")
          return plan
      except ValidationError as ve:
          logger.error(f"Schema Mismatch: ... Errors: {ve.json()}")
          return None
      except Exception as e:
          logger.error(f"Unexpected error during plan validation: {str(e)}")
          return None
  \<close>
  The result is \<open>Inr\<close> of what the function returns, or \<open>Inl\<close> of an exception that
  leaves it; the second component is what it logged. The message of the first handler
  is built before \<open>logger.error\<close> is called: when \<open>ve.json()\<close> raises, nothing is
  logged, and the exception leaves the function, since an \<open>except\<close> clause does not
  guard the handler of the clause before it.
\<close>

definition safe_validate_plan :: "pydict \<Rightarrow> (exn + PlannerPlan option) \<times> event list" where
  "safe_validate_plan raw_data =
     (case PlannerPlan_init raw_data of
        Inr plan \<Rightarrow>
          (Inr (Some plan),
           [Log ''PlannerAgent'' INFO
              (''Validation Success: Query classified as '' @ [CHR 0x27] @ query_type plan @ [CHR 0x27])
              None])
      | Inl e \<Rightarrow>
          if is_ValidationError e then
            (case json_raises e of
               Some e' \<Rightarrow> (Inl e', [])
             | None \<Rightarrow>
                 (Inr None,
                  [Log ''PlannerAgent'' ERROR
                     ''Schema Mismatch: The LLM returned incompatible JSON. Errors: '' (Some e)]))
          else if is_Exception e then
            (Inr None,
             [Log ''PlannerAgent'' ERROR ''Unexpected error during plan validation: '' (Some e)])
          else (Inl e, []))"

text \<open>
  The spec's words for the accepted mappings: the mapping contains a \<open>query_type\<close>
  string field and a \<open>sub_queries\<close> field that is a sequence of strings.
\<close>

fun is_str :: "pyval \<Rightarrow> bool" where
  "is_str (PStr s) = True"
| "is_str v = False"

fun is_str_sequence :: "pyval \<Rightarrow> bool" where
  "is_str_sequence (PList vs) = list_all is_str vs"
| "is_str_sequence v = False"

definition spec_plan_mapping :: "pydict \<Rightarrow> bool" where
  "spec_plan_mapping m =
     ((case map_of m ''query_type'' of Some v \<Rightarrow> is_str v | None \<Rightarrow> False) \<and>
      (case map_of m ''sub_queries'' of Some v \<Rightarrow> is_str_sequence v | None \<Rightarrow> False))"

text \<open>The spec's closed set of categories.\<close>

definition spec_query_types :: "string set" where
  "spec_query_types = {''comparison'', ''definition'', ''recommendation'', ''uses'', ''general''}"

section \<open>The agents (agents/planner.py, agents/synthesizer.py)\<close>

text \<open>
  An agent is the record of the keyword arguments its constructor is given. \<open>Agent\<close>
  and \<open>SequentialAgent\<close> share the name and the description of the framework's base
  agent. An argument the source leaves out has the constructor's default: no tools, no
  output schema.
\<close>

datatype LiteLlm = LiteLlm string string

datatype tool = retriever_tool

datatype schema = PlannerPlan_schema

record BaseAgent =
  name :: string
  description :: string

record Agent = BaseAgent +
  model :: LiteLlm
  instruction :: string
  tools :: "tool list"
  output_schema :: "schema option"
  output_key :: "string option"

record SequentialAgent = BaseAgent +
  sub_agents :: "Agent list"

text \<open>
  The process environment \<open>os.environ\<close>, and the variables a \<open>.env\<close> file defines.
  \<open>load_dotenv()\<close> adds the file's variables to the environment; a variable that is
  already set keeps its value. \<open>os.getenv\<close> is the lookup.
\<close>

type_synonym environ = "string \<rightharpoonup> string"

definition load_dotenv :: "environ \<Rightarrow> environ \<Rightarrow> environ" where
  "load_dotenv dotenv environ = dotenv ++ environ"

definition planner_instruction :: string where
  "planner_instruction =
     ''### ROLE\<newline>'' @
     ''You are a Strategic Planning Agent for an AWS RAG system. [cite: 58]\<newline>\<newline>'' @
     ''### TASKS\<newline>'' @
     ''1. CLASSIFY: Assign the query to exactly one category: 'comparison', 'definition', 'recommendation', or 'uses'. [cite: 61]\<newline>'' @
     ''2. DECOMPOSE: Generate 2-3 specific sub-queries optimized for semantic search in an AWS RAG guide. [cite: 63, 64]\<newline>\<newline>'' @
     ''### CONSTRAINTS\<newline>'' @
     ''- Output ONLY valid JSON matching the provided schema.\<newline>'' @
     ''- No conversational filler or preamble.\<newline>'' @
     ''- If the query is unrelated to RAG on AWS, categorize as 'general' and suggest a refusal search term.''"

definition synthesizer_instruction :: string where
  "synthesizer_instruction =
     ''### ROLE\<newline>'' @
     ''You are a Technical Synthesis Expert for AWS Prescriptive Guidance. '' @
     ''Your goal is to provide cited, accurate answers based ONLY on retrieved text.\<newline>\<newline>'' @
     ''### EXECUTION PROTOCOL\<newline>'' @
     ''1. ANALYZE PLAN: Extract the 'sub_queries' list from the {planner_plan} object.\<newline>'' @
     ''2. RETRIEVE DATA: You MUST call the 'retriever_tool' using that list of sub_queries. '' @
     ''Do not attempt to answer from memory.\<newline>'' @
     ''3. SYNTHESIZE: Review the 'retriever_content' returned by the tool.\<newline>\<newline>'' @
     ''### RESPONSE FORMATTING RULES\<newline>'' @
     ''- STRUCTURE: Use clear sections and bullet points for readability[cite: 32, 81].\<newline>'' @
     ''- CITATIONS: Every factual claim MUST be followed by a citation, e.g., '(Source: [Section Name])'[cite: 29, 83].\<newline>'' @
     ''- GROUNDING: If the tool returns no data or the data does not answer the query, '' @
     ''you MUST state: 'This information is not available in the provided AWS RAG guide'.\<newline>'' @
     ''- NO HALLUCINATIONS: Never use external technical knowledge[cite: 30, 106].''"

text \<open>
  The two \<open>Agent(...)\<close> calls of the initializers, for a given API key:
  \<^verbatim>\<open>
  Agent(name="planner_agent_v1",
        model=LiteLlm(model='groq/llama-3.3-70b-versatile', api_key=api_key),
        description=..., instruction=...,
        output_schema=PlannerPlan, output_key="planner_plan")
  Agent(name="synthesizer_agent_v1",
        model=LiteLlm(model='groq/llama-3.3-70b-versatile', api_key=api_key),
        description=..., instruction=...,
        tools=[retriever_tool], output_key="final_response")
  \<close>
\<close>

definition planner_agent :: "string \<Rightarrow> Agent" where
  "planner_agent api_key =
     \<lparr>name = ''planner_agent_v1'',
      description =
        ''Strategist responsible for query classification and decomposition '' @
        ''to guide the Retrieval Agent.'',
      model = LiteLlm ''groq/llama-3.3-70b-versatile'' api_key,
      instruction = planner_instruction,
      tools = [],
      output_schema = Some PlannerPlan_schema,
      output_key = Some ''planner_plan''\<rparr>"

definition synthesizer_agent :: "string \<Rightarrow> Agent" where
  "synthesizer_agent api_key =
     \<lparr>name = ''synthesizer_agent_v1'',
      description =
        ''A specialist that synthesizes retrieved document segments into '' @
        ''structured, cited answers for the user.'',
      model = LiteLlm ''groq/llama-3.3-70b-versatile'' api_key,
      instruction = synthesizer_instruction,
      tools = [retriever_tool],
      output_schema = None,
      output_key = Some ''final_response''\<rparr>"

text \<open>
  \<^verbatim>\<open>
  def initialize_planner_agent() -> Agent:
      load_dotenv()
      api_key = os.getenv("GROQ_API_KEY")
      if not api_key:
          logger.critical("GROQ_API_KEY is missing from environment variables.")
          raise EnvironmentError("GROQ_API_KEY not found. Ensure your .env file is configured.")
      try:
          logger.info("Configuring LLM and output schema for Planner...")
          planner = Agent(name="planner_agent_v1", model=LiteLlm(...), ...,
                          output_schema=PlannerPlan, output_key="planner_plan")
          logger.info("Planner Agent successfully initialized.")
          return planner
      except Exception as e:
          logger.error(f"Failed to initialize Planner Agent component: {str(e)}", exc_info=True)
          raise RuntimeError("Agent initialization aborted due to configuration error.") from e
  \<close>
  The constructors \<open>Agent\<close> and \<open>LiteLlm\<close> belong to the agent framework. What they may
  raise on given arguments is the parameter \<open>construct\<close>: \<open>None\<close> when the agent is
  built, the exception otherwise. The function returns its result, the environment
  after \<open>load_dotenv\<close>, and what it logged.
\<close>

definition initialize_planner_agent ::
  "(Agent \<Rightarrow> exn option) \<Rightarrow> environ \<Rightarrow> environ \<Rightarrow> (exn + Agent) \<times> environ \<times> event list" where
  "initialize_planner_agent construct dotenv environ =
     (let environ' = load_dotenv dotenv environ;
          api_key = environ' ''GROQ_API_KEY'';
          missing_key =
            (Inl (EnvironmentError ''GROQ_API_KEY not found. Ensure your .env file is configured.''),
             environ',
             [Log ''PlannerAgent'' CRITICAL ''GROQ_API_KEY is missing from environment variables.'' None])
      in case api_key of
           None \<Rightarrow> missing_key
         | Some key \<Rightarrow>
             if key = [] then missing_key
             else
               let planner = planner_agent key;
                   configuring =
                     Log ''PlannerAgent'' INFO ''Configuring LLM and output schema for Planner...'' None
               in case construct planner of
                    None \<Rightarrow>
                      (Inr planner, environ',
                       [configuring,
                        Log ''PlannerAgent'' INFO ''Planner Agent successfully initialized.'' None])
                  | Some e \<Rightarrow>
                      if is_Exception e then
                        (Inl (RuntimeError ''Agent initialization aborted due to configuration error.'' e),
                         environ',
                         [configuring,
                          Log ''PlannerAgent'' ERROR
                            ''Failed to initialize Planner Agent component: '' (Some e)])
                      else (Inl e, environ', [configuring]))"

text \<open>
  \<^verbatim>\<open>
  def initialize_synthesizer_agent() -> Agent:
      load_dotenv()
      api_key = os.getenv("GROQ_API_KEY")
      if not api_key:
          logger.critical("GROQ_API_KEY is missing. Synthesizer cannot function without LLM access.")
          raise EnvironmentError("GROQ_API_KEY not found in environment.")
      try:
          logger.info("Initializing Synthesizer Agent with tool-calling capabilities...")
          synthesizer = Agent(name="synthesizer_agent_v1", model=LiteLlm(...), ...,
                              tools=[retriever_tool], output_key="final_response")
          logger.info("Synthesizer Agent successfully initialized with retriever_tool.")
          return synthesizer
      except Exception as e:
          logger.error(f"Critical error during Synthesizer Agent setup: {str(e)}", exc_info=True)
          raise RuntimeError("Synthesizer Agent failed to initialize.") from e
  \<close>
\<close>

definition initialize_synthesizer_agent ::
  "(Agent \<Rightarrow> exn option) \<Rightarrow> environ \<Rightarrow> environ \<Rightarrow> (exn + Agent) \<times> environ \<times> event list" where
  "initialize_synthesizer_agent construct dotenv environ =
     (let environ' = load_dotenv dotenv environ;
          api_key = environ' ''GROQ_API_KEY'';
          missing_key =
            (Inl (EnvironmentError ''GROQ_API_KEY not found in environment.''),
             environ',
             [Log ''SynthesizerAgent'' CRITICAL
                ''GROQ_API_KEY is missing. Synthesizer cannot function without LLM access.'' None])
      in case api_key of
           None \<Rightarrow> missing_key
         | Some key \<Rightarrow>
             if key = [] then missing_key
             else
               let synthesizer = synthesizer_agent key;
                   initializing =
                     Log ''SynthesizerAgent'' INFO
                       ''Initializing Synthesizer Agent with tool-calling capabilities...'' None
               in case construct synthesizer of
                    None \<Rightarrow>
                      (Inr synthesizer, environ',
                       [initializing,
                        Log ''SynthesizerAgent'' INFO
                          ''Synthesizer Agent successfully initialized with retriever_tool.'' None])
                  | Some e \<Rightarrow>
                      if is_Exception e then
                        (Inl (RuntimeError ''Synthesizer Agent failed to initialize.'' e),
                         environ',
                         [initializing,
                          Log ''SynthesizerAgent'' ERROR
                            ''Critical error during Synthesizer Agent setup: '' (Some e)])
                      else (Inl e, environ', [initializing]))"

text \<open>
  Modelled from the spec: the write of a finished stage into Session State, which the
  agent framework performs and the sources only configure through \<open>output_key\<close>. The
  spec has each stage place its output in the shared key-value state under its own
  named key; an agent without a key writes nothing.
\<close>

definition write_output :: "Agent \<Rightarrow> pyval \<Rightarrow> pydict \<Rightarrow> pydict" where
  "write_output agent output st =
     (case output_key agent of
        None \<Rightarrow> st
      | Some key \<Rightarrow> AList.update key output st)"

section \<open>The orchestrator and the runner (main.py)\<close>

definition APP_NAME :: string where
  "APP_NAME = ''aws_rag_agent_team''"

definition SESSION_ID :: string where
  "SESSION_ID = ''session_001''"

definition USER_ID :: string where
  "USER_ID = ''user_001''"

text \<open>The \<open>SequentialAgent(...)\<close> call of \<open>setup_orchestrator\<close>.\<close>

definition AWSRagRootAgent :: "Agent \<Rightarrow> Agent \<Rightarrow> SequentialAgent" where
  "AWSRagRootAgent planner synthesizer =
     \<lparr>name = ''AWSRagRootAgent'',
      description =
        ''Sequential pipeline for AWS RAG: Planning followed by Synthesized Answering.'',
      sub_agents = [planner, synthesizer]\<rparr>"

text \<open>
  \<^verbatim>\<open>
  def setup_orchestrator() -> SequentialAgent:
      planner = initialize_planner_agent()
      synthesizer = initialize_synthesizer_agent()
      return SequentialAgent(name="AWSRagRootAgent", sub_agents=[planner, synthesizer],
                             description="...")
  \<close>
  An exception of either initializer leaves the function at once; the second
  initializer runs in the environment the first one left.
\<close>

definition setup_orchestrator ::
  "(Agent \<Rightarrow> exn option) \<Rightarrow> environ \<Rightarrow> environ \<Rightarrow> (exn + SequentialAgent) \<times> environ \<times> event list" where
  "setup_orchestrator construct dotenv environ =
     (case initialize_planner_agent construct dotenv environ of
        (Inl e, environ1, log1) \<Rightarrow> (Inl e, environ1, log1)
      | (Inr planner, environ1, log1) \<Rightarrow>
          (case initialize_synthesizer_agent construct dotenv environ1 of
             (Inl e, environ2, log2) \<Rightarrow> (Inl e, environ2, log1 @ log2)
           | (Inr synthesizer, environ2, log2) \<Rightarrow>
               (Inr (AWSRagRootAgent planner synthesizer), environ2, log1 @ log2)))"

text \<open>
  A session, of which the runner reads the state only: a dict, true in a condition
  when it has at least one key.
\<close>

record Session =
  state :: pydict

text \<open>
  The services of the agent framework that \<open>run_agentic_rag\<close> calls, over the
  framework's own representation \<open>'svc\<close> of a session service: the state of a fresh
  \<open>InMemorySessionService\<close>; \<open>create_session\<close> and \<open>Runner.run_async\<close>, which change
  the service and may raise; \<open>get_session\<close>, which reads it; and the agent
  constructor of the initializers.
\<close>

record 'svc adk =
  Agent_init :: "Agent \<Rightarrow> exn option"
  InMemorySessionService :: "'svc"
  create_session :: "'svc \<Rightarrow> string \<Rightarrow> string \<Rightarrow> string \<Rightarrow> exn option \<times> 'svc"
  run_async :: "SequentialAgent \<Rightarrow> string \<Rightarrow> 'svc \<Rightarrow> string \<Rightarrow> string \<Rightarrow> string \<Rightarrow> exn option \<times> 'svc"
  get_session :: "'svc \<Rightarrow> string \<Rightarrow> string \<Rightarrow> string \<Rightarrow> Session option"

text \<open>
  \<open>d.get(key, default)\<close>, and the text \<open>print\<close> and an f-string give a value: a
  string as it is, \<open>None\<close> as \<open>None\<close>, any other value as Python's \<open>repr\<close> writes it,
  which is a parameter.
\<close>

definition dict_get :: "pydict \<Rightarrow> string \<Rightarrow> pyval \<Rightarrow> pyval" where
  "dict_get d key dflt = (case map_of d key of None \<Rightarrow> dflt | Some v \<Rightarrow> v)"

fun py_str :: "(pyval \<Rightarrow> string) \<Rightarrow> pyval \<Rightarrow> string" where
  "py_str repr (PStr s) = s"
| "py_str repr PNone = ''None''"
| "py_str repr v = repr v"

text \<open>
  The last part of \<open>run_agentic_rag\<close>, one \<open>Print\<close> for each call of \<open>print\<close>:
  \<^verbatim>\<open>
  if final_session and final_session.state:
      state = final_session.state
      print("\n" + "="*50)
      print("AGENTIC TRACE (OBSERVABILITY)")
      print("-" * 50)
      print(f"Planner Result: {state.get('planner_plan')}")
      print("="*50 + "\n")
      print("FINAL ANSWER:")
      print(state.get("final_response", "No response generated."))
  else:
      logger.error("Failed to retrieve final session state.")
  \<close>
\<close>

definition final_output :: "(pyval \<Rightarrow> string) \<Rightarrow> Session option \<Rightarrow> event list" where
  "final_output repr final_session =
     (case final_session of
        None \<Rightarrow> [Log ''MainRunner'' ERROR ''Failed to retrieve final session state.'' None]
      | Some session \<Rightarrow>
          if state session \<noteq> [] then
            [Print (''\<newline>'' @ replicate 50 (CHR ''='')),
             Print ''AGENTIC TRACE (OBSERVABILITY)'',
             Print (replicate 50 (CHR ''-'')),
             Print (''Planner Result: '' @ py_str repr (dict_get (state session) ''planner_plan'' PNone)),
             Print (replicate 50 (CHR ''='') @ ''\<newline>''),
             Print ''FINAL ANSWER:'',
             Print (py_str repr
                      (dict_get (state session) ''final_response'' (PStr ''No response generated.'')))]
          else [Log ''MainRunner'' ERROR ''Failed to retrieve final session state.'' None])"

text \<open>
  The part of \<open>run_agentic_rag\<close> after the session is set up, from the banner on;
  \<open>out\<close> is what was logged before.
\<close>

definition run_workflow ::
  "'svc adk \<Rightarrow> (pyval \<Rightarrow> string) \<Rightarrow> SequentialAgent \<Rightarrow> 'svc \<Rightarrow> string \<Rightarrow> event list \<Rightarrow>
   (exn + unit) \<times> event list" where
  "run_workflow adk repr root_agent session_service query out =
     (let out1 = out @ [Print ''\<newline>--- Starting Agentic Workflow ---\<newline>'']
      in case run_async adk root_agent APP_NAME session_service USER_ID SESSION_ID query of
           (Some e, session_service2) \<Rightarrow>
             if is_Exception e then
               (Inr (), out1 @ [Log ''MainRunner'' ERROR ''Execution Error: '' (Some e)])
             else (Inl e, out1)
         | (None, session_service2) \<Rightarrow>
             (Inr (),
              out1 @ final_output repr
                       (get_session adk session_service2 APP_NAME USER_ID SESSION_ID)))"

text \<open>
  \<^verbatim>\<open>
  async def run_agentic_rag(query: str):
      session_service = InMemorySessionService()
      root_agent = setup_orchestrator()
      runner = Runner(agent=root_agent, app_name=APP_NAME, session_service=session_service)
      try:
          await session_service.create_session(app_name=APP_NAME, user_id=USER_ID,
                                               session_id=SESSION_ID)
          logger.info(f"Session {SESSION_ID} initialized.")
      except Exception as e:
          logger.warning(f"Session already exists or could not be created: {e}")
      content = types.Content(role='user', parts=[types.Part(text=query)])
      print("\n--- Starting Agentic Workflow ---\n")
      try:
          async for event in runner.run_async(user_id=USER_ID, session_id=SESSION_ID,
                                              new_message=content):
              pass
      except Exception as e:
          logger.error(f"Execution Error: {str(e)}", exc_info=True)
          return
      final_session = await session_service.get_session(app_name=APP_NAME, user_id=USER_ID,
                                                        session_id=SESSION_ID)
      ... (the part above)
  \<close>
  The result is \<open>Inr ()\<close> when the function returns and \<open>Inl\<close> of the exception that
  leaves it; the second component lists what was logged and printed, in order.
\<close>

definition run_agentic_rag ::
  "'svc adk \<Rightarrow> (pyval \<Rightarrow> string) \<Rightarrow> environ \<Rightarrow> environ \<Rightarrow> string \<Rightarrow> (exn + unit) \<times> event list" where
  "run_agentic_rag adk repr dotenv environ query =
     (let session_service = InMemorySessionService adk
      in case setup_orchestrator (Agent_init adk) dotenv environ of
           (Inl e, environ', log0) \<Rightarrow> (Inl e, log0)
         | (Inr root_agent, environ', log0) \<Rightarrow>
             (case create_session adk session_service APP_NAME USER_ID SESSION_ID of
                (Some e, session_service1) \<Rightarrow>
                  if is_Exception e then
                    run_workflow adk repr root_agent session_service1 query
                      (log0 @ [Log ''MainRunner'' WARNING
                                 ''Session already exists or could not be created: '' (Some e)])
                  else (Inl e, log0)
              | (None, session_service1) \<Rightarrow>
                  run_workflow adk repr root_agent session_service1 query
                    (log0 @ [Log ''MainRunner'' INFO
                               (''Session '' @ SESSION_ID @ '' initialized.'') None])))"

text \<open>
  A concrete framework, for evaluating the runner: every constructor and call
  succeeds, and the run leaves the given session (or none) in the service.
\<close>

definition adk_leaving :: "Session option \<Rightarrow> (Session option) adk" where
  "adk_leaving final_session =
     \<lparr>Agent_init = (\<lambda>agent. None),
      InMemorySessionService = None,
      create_session = (\<lambda>svc app user sid. (None, Some \<lparr>state = []\<rparr>)),
      run_async = (\<lambda>agent app svc user sid query. (None, final_session)),
      get_session = (\<lambda>svc app user sid. svc)\<rparr>"

section \<open>Properties of the schema validator\<close>

lemma validate_str_Inr: "validate_str loc v = Inr s \<longleftrightarrow> v = PStr s"
  by (cases v) auto

lemma validate_items_map: "validate_items loc i (map PStr ss) = ([], ss)"
  by (induction ss arbitrary: i) auto

lemma validate_items_ok: "validate_items loc i vs = ([], ss) \<Longrightarrow> vs = map PStr ss"
proof (induction vs arbitrary: i ss)
  case Nil
  then show ?case by simp
next
  case (Cons v vs)
  then show ?case
    by (cases v) (auto split: prod.splits)
qed

lemma validate_list_str_Inr: "validate_list_str loc v = Inr ss \<longleftrightarrow> v = PList (map PStr ss)"
proof (cases v)
  case (PList vs)
  show ?thesis
  proof
    assume "validate_list_str loc v = Inr ss"
    with PList have "validate_items loc 0 vs = ([], ss)"
      by (auto split: prod.splits list.splits)
    then show "v = PList (map PStr ss)"
      using PList validate_items_ok by blast
  next
    assume "v = PList (map PStr ss)"
    then show "validate_list_str loc v = Inr ss"
      by (simp add: validate_items_map)
  qed
qed auto

lemma PlannerPlan_init_Inr:
  "PlannerPlan_init data = Inr plan \<longleftrightarrow>
     map_of data ''query_type'' = Some (PStr (query_type plan)) \<and>
     map_of data ''sub_queries'' = Some (PList (map PStr (sub_queries plan)))"
proof
  assume "PlannerPlan_init data = Inr plan"
  then obtain q ss where q: "validate_field data ''query_type'' validate_str = Inr q"
    and ss: "validate_field data ''sub_queries'' validate_list_str = Inr ss"
    and p: "plan = \<lparr>query_type = q, sub_queries = ss\<rparr>"
    by (auto simp: PlannerPlan_init_def split: sum.splits)
  from q have "map_of data ''query_type'' = Some (PStr q)"
    by (auto simp: validate_field_def validate_str_Inr split: option.splits)
  moreover from ss have "map_of data ''sub_queries'' = Some (PList (map PStr ss))"
    by (auto simp: validate_field_def validate_list_str_Inr split: option.splits)
  ultimately show "map_of data ''query_type'' = Some (PStr (query_type plan)) \<and>
     map_of data ''sub_queries'' = Some (PList (map PStr (sub_queries plan)))"
    using p by simp
next
  assume "map_of data ''query_type'' = Some (PStr (query_type plan)) \<and>
     map_of data ''sub_queries'' = Some (PList (map PStr (sub_queries plan)))"
  then show "PlannerPlan_init data = Inr plan"
    by (simp add: PlannerPlan_init_def validate_field_def validate_items_map)
qed

lemma PlannerPlan_init_Inl: "PlannerPlan_init data = Inl e \<Longrightarrow> is_ValidationError e"
  by (auto simp: PlannerPlan_init_def split: sum.splits)

lemma safe_validate_plan_Some:
  "fst (safe_validate_plan raw_data) = Inr (Some plan) \<longleftrightarrow> PlannerPlan_init raw_data = Inr plan"
  by (auto simp: safe_validate_plan_def split: sum.splits option.splits)

lemma safe_validate_plan_rejected:
  assumes "PlannerPlan_init raw_data = Inl e"
  shows "fst (safe_validate_plan raw_data) =
           (case json_raises e of Some e' \<Rightarrow> Inl e' | None \<Rightarrow> Inr None)"
  using assms PlannerPlan_init_Inl [OF assms]
  by (simp add: safe_validate_plan_def split: option.splits)

lemma safe_validate_plan_raises_iff:
  "(\<exists>e'. fst (safe_validate_plan raw_data) = Inl e') \<longleftrightarrow>
     (\<exists>e. PlannerPlan_init raw_data = Inl e \<and> json_raises e \<noteq> None)"
proof (cases "PlannerPlan_init raw_data")
  case (Inl e)
  then show ?thesis
    by (auto simp: safe_validate_plan_rejected [OF Inl] split: option.splits)
next
  case (Inr plan)
  then show ?thesis
    by (simp add: safe_validate_plan_def)
qed

lemma is_str_iff: "is_str v \<longleftrightarrow> (\<exists>s. v = PStr s)"
  by (cases v) auto

lemma list_all_is_str_iff: "list_all is_str vs \<longleftrightarrow> (\<exists>ss. vs = map PStr ss)"
proof (induction vs)
  case Nil
  then show ?case by simp
next
  case (Cons v vs)
  show ?case
  proof
    assume "list_all is_str (v # vs)"
    then have "is_str v" and "list_all is_str vs" by simp_all
    then obtain s ss where "v = PStr s" and "vs = map PStr ss"
      using Cons is_str_iff by blast
    then have "v # vs = map PStr (s # ss)" by simp
    then show "\<exists>ss. v # vs = map PStr ss" by (rule exI)
  next
    assume "\<exists>ss. v # vs = map PStr ss"
    then obtain ss where ss: "v # vs = map PStr ss" ..
    then obtain s ss' where "ss = s # ss'" by (cases ss) auto
    with ss have "v = PStr s" and "vs = map PStr ss'" by simp_all
    then have "is_str v" and "list_all is_str vs" using Cons by auto
    then show "list_all is_str (v # vs)" by simp
  qed
qed

lemma is_str_sequence_iff: "is_str_sequence v \<longleftrightarrow> (\<exists>ss. v = PList (map PStr ss))"
  by (cases v) (auto simp: list_all_is_str_iff)

lemma spec_plan_mapping_iff:
  "spec_plan_mapping m \<longleftrightarrow>
     (\<exists>q ss. map_of m ''query_type'' = Some (PStr q) \<and>
             map_of m ''sub_queries'' = Some (PList (map PStr ss)))"
  by (auto simp: spec_plan_mapping_def is_str_iff is_str_sequence_iff split: option.splits)

lemma accepted_iff_spec_plan_mapping:
  "(\<exists>plan. fst (safe_validate_plan m) = Inr (Some plan)) \<longleftrightarrow> spec_plan_mapping m"
proof
  assume "\<exists>plan. fst (safe_validate_plan m) = Inr (Some plan)"
  then show "spec_plan_mapping m"
    unfolding safe_validate_plan_Some PlannerPlan_init_Inr spec_plan_mapping_iff by blast
next
  assume "spec_plan_mapping m"
  then obtain q ss where "map_of m ''query_type'' = Some (PStr q)"
    and "map_of m ''sub_queries'' = Some (PList (map PStr ss))"
    unfolding spec_plan_mapping_iff by blast
  then have "PlannerPlan_init m = Inr \<lparr>query_type = q, sub_queries = ss\<rparr>"
    by (simp add: PlannerPlan_init_Inr)
  then show "\<exists>plan. fst (safe_validate_plan m) = Inr (Some plan)"
    unfolding safe_validate_plan_Some by blast
qed

lemma safe_validate_plan_failure_cases:
  assumes "\<not> spec_plan_mapping m"
  shows "fst (safe_validate_plan m) = Inr None \<or> fst (safe_validate_plan m) = Inl ValueError"
proof -
  from assms have "\<forall>plan. PlannerPlan_init m \<noteq> Inr plan"
    using accepted_iff_spec_plan_mapping [of m] by (simp add: safe_validate_plan_Some)
  then obtain e where e: "PlannerPlan_init m = Inl e"
    by (cases "PlannerPlan_init m") auto
  from PlannerPlan_init_Inl [OF e] obtain details where "e = ValidationError details"
    by (cases e) auto
  then show ?thesis
    by (simp add: safe_validate_plan_rejected [OF e])
qed

text \<open>
  C2. The claim has the validator return its failure value for every mapping that is
  not of the plan's shape. The mapping \<open>{"query_type": "d", "sub_queries": "\ud800"}\<close>
  is not of that shape, its \<open>sub_queries\<close> being a str and not a list, and on it the
  validator returns nothing: the rejected input holds a lone surrogate, \<open>ve.json()\<close>
  raises \<open>ValueError\<close> in the first handler, and the exception leaves the function
  with nothing logged.
\<close>

theorem safe_validate_plan_raises_on_rejected_field:
  "\<not> spec_plan_mapping
        [(''query_type'', PStr ''d''), (''sub_queries'', PStr [CHR 0xED, CHR 0xA0, CHR 0x80])] \<and>
   safe_validate_plan
     [(''query_type'', PStr ''d''), (''sub_queries'', PStr [CHR 0xED, CHR 0xA0, CHR 0x80])]
     = (Inl ValueError, [])"
  by (simp add: spec_plan_mapping_def safe_validate_plan_def PlannerPlan_init_def
      validate_field_def)

text \<open>
  C3. The claim has no exception leave the validator, in particular on a mapping
  that lacks \<open>sub_queries\<close>. The mapping \<open>{"query_type": "d", "x": "\ud800"}\<close> lacks
  \<open>sub_queries\<close>; the input of the \<open>missing\<close> error is the whole mapping, which holds
  a lone surrogate, so \<open>ve.json()\<close> raises \<open>ValueError\<close> in the first handler and
  the exception leaves the function: no \<open>None\<close> is returned.
\<close>

theorem safe_validate_plan_raises_on_missing_field:
  "map_of [(''query_type'', PStr ''d''), (''x'', PStr [CHR 0xED, CHR 0xA0, CHR 0x80])] ''sub_queries''
     = None \<and>
   safe_validate_plan [(''query_type'', PStr ''d''), (''x'', PStr [CHR 0xED, CHR 0xA0, CHR 0x80])]
     = (Inl ValueError, [])"
  by (simp add: safe_validate_plan_def PlannerPlan_init_def validate_field_def)

text \<open>
  C6. Validation round-trips: the field mapping of any plan validates, and the plan
  returned is the plan the mapping came from.
\<close>

theorem safe_validate_plan_model_dump:
  "fst (safe_validate_plan (model_dump plan)) = Inr (Some plan)"
  by (simp add: safe_validate_plan_Some PlannerPlan_init_Inr model_dump_def)


text \<open>
  C4 (as stated). The mapping below has a \<open>query_type\<close> other than \<open>general\<close> and no
  sub-query at all; the validator accepts it, so the length of \<open>sub_queries\<close> of an
  accepted plan need not be 2 or 3, nor positive.
\<close>

theorem sub_queries_length_counterexample:
  "fst (safe_validate_plan [(''query_type'', PStr ''definition''), (''sub_queries'', PList [])])
     = Inr (Some \<lparr>query_type = ''definition'', sub_queries = []\<rparr>) \<and>
   query_type \<lparr>query_type = ''definition'', sub_queries = []\<rparr> \<noteq> ''general'' \<and>
   length (sub_queries \<lparr>query_type = ''definition'', sub_queries = []\<rparr>) \<noteq> 2 \<and>
   length (sub_queries \<lparr>query_type = ''definition'', sub_queries = []\<rparr>) \<noteq> 3 \<and>
   sub_queries \<lparr>query_type = ''definition'', sub_queries = []\<rparr> = []"
  by (simp add: safe_validate_plan_Some PlannerPlan_init_Inr)

text \<open>
  C4 (amended). The \<open>sub_queries\<close> of an accepted plan are exactly the strings of the
  mapping's \<open>sub_queries\<close> list, in order, and the schema puts no bound on their
  number: for every \<open>n\<close>, zero included, some mapping with a \<open>query_type\<close> other than
  \<open>general\<close> and \<open>n\<close> sub-queries is accepted.
\<close>

theorem accepted_sub_queries_unbounded:
  "(fst (safe_validate_plan m) = Inr (Some plan) \<longrightarrow>
      map_of m ''sub_queries'' = Some (PList (map PStr (sub_queries plan)))) \<and>
   (\<exists>m' plan'. fst (safe_validate_plan m') = Inr (Some plan') \<and>
      query_type plan' \<noteq> ''general'' \<and> length (sub_queries plan') = n)"
proof
  show "fst (safe_validate_plan m) = Inr (Some plan) \<longrightarrow>
      map_of m ''sub_queries'' = Some (PList (map PStr (sub_queries plan)))"
    by (simp add: safe_validate_plan_Some PlannerPlan_init_Inr)
next
  let ?plan = "\<lparr>query_type = ''definition'', sub_queries = replicate n ''s3''\<rparr>"
  have "fst (safe_validate_plan (model_dump ?plan)) = Inr (Some ?plan)"
    by (simp add: safe_validate_plan_Some PlannerPlan_init_Inr model_dump_def)
  moreover have "query_type ?plan \<noteq> ''general''" by simp
  moreover have "length (sub_queries ?plan) = n" by simp
  ultimately show "\<exists>m' plan'. fst (safe_validate_plan m') = Inr (Some plan') \<and>
      query_type plan' \<noteq> ''general'' \<and> length (sub_queries plan') = n"
    by blast
qed

theorem accepted_sub_queries_unbounded_witness:
  "fst (safe_validate_plan
          [(''query_type'', PStr ''uses''),
           (''sub_queries'', PList [PStr ''a'', PStr ''b'', PStr ''c'', PStr ''d''])])
     = Inr (Some \<lparr>query_type = ''uses'', sub_queries = [''a'', ''b'', ''c'', ''d'']\<rparr>) \<and>
   map_of [(''query_type'', PStr ''uses''),
           (''sub_queries'', PList [PStr ''a'', PStr ''b'', PStr ''c'', PStr ''d''])] ''sub_queries''
     = Some (PList (map PStr (sub_queries \<lparr>query_type = ''uses'', sub_queries = [''a'', ''b'', ''c'', ''d'']\<rparr>)))"
proof -
  let ?m = "[(''query_type'', PStr ''uses''),
             (''sub_queries'', PList [PStr ''a'', PStr ''b'', PStr ''c'', PStr ''d''])]"
  let ?plan = "\<lparr>query_type = ''uses'', sub_queries = [''a'', ''b'', ''c'', ''d'']\<rparr>"
  have accepted: "fst (safe_validate_plan ?m) = Inr (Some ?plan)"
    by (simp add: safe_validate_plan_def PlannerPlan_init_def validate_field_def)
  with accepted_sub_queries_unbounded [of ?m ?plan 0]
  have "map_of ?m ''sub_queries'' = Some (PList (map PStr (sub_queries ?plan)))"
    by blast
  with accepted show ?thesis by blast
qed

text \<open>
  C5 (as stated). \<open>technical\<close>, the first example category of the field's own
  description, is outside the spec's closed set and is accepted as a \<open>query_type\<close>.
\<close>

theorem query_type_closed_set_counterexample:
  "fst (safe_validate_plan
          [(''query_type'', PStr ''technical''),
           (''sub_queries'', PList [PStr ''rag on aws'', PStr ''bedrock knowledge bases''])])
     = Inr (Some \<lparr>query_type = ''technical'',
                    sub_queries = [''rag on aws'', ''bedrock knowledge bases'']\<rparr>) \<and>
   query_type \<lparr>query_type = ''technical'',
               sub_queries = [''rag on aws'', ''bedrock knowledge bases'']\<rparr> \<notin> spec_query_types"
  by (simp add: safe_validate_plan_Some PlannerPlan_init_Inr spec_query_types_def)

text \<open>
  C5 (amended). The \<open>query_type\<close> of an accepted plan is the string the mapping holds
  under \<open>query_type\<close>, and every string is accepted there.
\<close>

theorem accepted_query_type_any_string:
  "(fst (safe_validate_plan m) = Inr (Some plan) \<longrightarrow>
      map_of m ''query_type'' = Some (PStr (query_type plan))) \<and>
   (\<exists>m' plan'. fst (safe_validate_plan m') = Inr (Some plan') \<and> query_type plan' = q)"
proof
  show "fst (safe_validate_plan m) = Inr (Some plan) \<longrightarrow>
      map_of m ''query_type'' = Some (PStr (query_type plan))"
    by (simp add: safe_validate_plan_Some PlannerPlan_init_Inr)
next
  let ?plan = "\<lparr>query_type = q, sub_queries = []\<rparr>"
  have "fst (safe_validate_plan (model_dump ?plan)) = Inr (Some ?plan)"
    by (simp add: safe_validate_plan_Some PlannerPlan_init_Inr model_dump_def)
  moreover have "query_type ?plan = q" by simp
  ultimately show "\<exists>m' plan'. fst (safe_validate_plan m') = Inr (Some plan') \<and> query_type plan' = q"
    by blast
qed

theorem accepted_query_type_any_string_witness:
  "fst (safe_validate_plan [(''query_type'', PStr ''general''), (''sub_queries'', PList [PStr ''refusal''])])
     = Inr (Some \<lparr>query_type = ''general'', sub_queries = [''refusal'']\<rparr>) \<and>
   map_of [(''query_type'', PStr ''general''), (''sub_queries'', PList [PStr ''refusal''])] ''query_type''
     = Some (PStr (query_type \<lparr>query_type = ''general'', sub_queries = [''refusal'']\<rparr>))"
proof -
  let ?m = "[(''query_type'', PStr ''general''), (''sub_queries'', PList [PStr ''refusal''])]"
  let ?plan = "\<lparr>query_type = ''general'', sub_queries = [''refusal'']\<rparr>"
  have accepted: "fst (safe_validate_plan ?m) = Inr (Some ?plan)"
    by (simp add: safe_validate_plan_def PlannerPlan_init_def validate_field_def)
  with accepted_query_type_any_string [of ?m ?plan "''x''"]
  have "map_of ?m ''query_type'' = Some (PStr (query_type ?plan))"
    by blast
  with accepted show ?thesis by blast
qed

section \<open>Properties of the initializers\<close>

lemma initialize_planner_agent_missing_key:
  assumes "load_dotenv dotenv environ ''GROQ_API_KEY'' = None"
  shows "initialize_planner_agent construct dotenv environ =
           (Inl (EnvironmentError ''GROQ_API_KEY not found. Ensure your .env file is configured.''),
            load_dotenv dotenv environ,
            [Log ''PlannerAgent'' CRITICAL ''GROQ_API_KEY is missing from environment variables.'' None])"
  using assms by (simp add: initialize_planner_agent_def Let_def)

lemma initialize_synthesizer_agent_missing_key:
  assumes "load_dotenv dotenv environ ''GROQ_API_KEY'' = None"
  shows "initialize_synthesizer_agent construct dotenv environ =
           (Inl (EnvironmentError ''GROQ_API_KEY not found in environment.''),
            load_dotenv dotenv environ,
            [Log ''SynthesizerAgent'' CRITICAL
               ''GROQ_API_KEY is missing. Synthesizer cannot function without LLM access.'' None])"
  using assms by (simp add: initialize_synthesizer_agent_def Let_def)

lemma initialize_planner_agent_Inr:
  assumes "fst (initialize_planner_agent construct dotenv environ) = Inr planner"
  shows "\<exists>key. planner = planner_agent key \<and> key \<noteq> [] \<and>
               load_dotenv dotenv environ ''GROQ_API_KEY'' = Some key"
  using assms
  by (auto simp: initialize_planner_agent_def Let_def split: option.splits if_splits)

lemma initialize_synthesizer_agent_Inr:
  assumes "fst (initialize_synthesizer_agent construct dotenv environ) = Inr synthesizer"
  shows "\<exists>key. synthesizer = synthesizer_agent key \<and> key \<noteq> [] \<and>
               load_dotenv dotenv environ ''GROQ_API_KEY'' = Some key"
  using assms
  by (auto simp: initialize_synthesizer_agent_def Let_def split: option.splits if_splits)

lemma setup_orchestrator_missing_key:
  assumes "load_dotenv dotenv environ ''GROQ_API_KEY'' = None"
  shows "setup_orchestrator construct dotenv environ =
           (Inl (EnvironmentError ''GROQ_API_KEY not found. Ensure your .env file is configured.''),
            load_dotenv dotenv environ,
            [Log ''PlannerAgent'' CRITICAL ''GROQ_API_KEY is missing from environment variables.'' None])"
  by (simp add: setup_orchestrator_def initialize_planner_agent_missing_key [OF assms])

text \<open>
  C7. When \<open>GROQ_API_KEY\<close> is absent from the environment and from the \<open>.env\<close> file,
  each initializer raises \<open>EnvironmentError\<close>, and so does \<open>run_agentic_rag\<close>, having
  logged the planner's critical record only: no session is created and the runner
  is never given the query.
\<close>

theorem missing_credential_is_fatal:
  assumes "load_dotenv dotenv environ ''GROQ_API_KEY'' = None"
  shows "fst (initialize_planner_agent construct dotenv environ) =
           Inl (EnvironmentError ''GROQ_API_KEY not found. Ensure your .env file is configured.'') \<and>
         fst (initialize_synthesizer_agent construct dotenv environ) =
           Inl (EnvironmentError ''GROQ_API_KEY not found in environment.'') \<and>
         run_agentic_rag adk repr dotenv environ query =
           (Inl (EnvironmentError ''GROQ_API_KEY not found. Ensure your .env file is configured.''),
            [Log ''PlannerAgent'' CRITICAL ''GROQ_API_KEY is missing from environment variables.'' None])"
proof (intro conjI)
  show "fst (initialize_planner_agent construct dotenv environ) =
           Inl (EnvironmentError ''GROQ_API_KEY not found. Ensure your .env file is configured.'')"
    by (simp add: initialize_planner_agent_missing_key [OF assms])
next
  show "fst (initialize_synthesizer_agent construct dotenv environ) =
           Inl (EnvironmentError ''GROQ_API_KEY not found in environment.'')"
    by (simp add: initialize_synthesizer_agent_missing_key [OF assms])
next
  show "run_agentic_rag adk repr dotenv environ query =
           (Inl (EnvironmentError ''GROQ_API_KEY not found. Ensure your .env file is configured.''),
            [Log ''PlannerAgent'' CRITICAL ''GROQ_API_KEY is missing from environment variables.'' None])"
    by (simp add: run_agentic_rag_def setup_orchestrator_missing_key [OF assms])
qed

theorem missing_credential_is_fatal_witness:
  "load_dotenv Map.empty [''PATH'' \<mapsto> ''/usr/bin''] ''GROQ_API_KEY'' = None \<and>
   run_agentic_rag (adk_leaving None) (\<lambda>v. []) Map.empty [''PATH'' \<mapsto> ''/usr/bin''] ''What is Amazon S3?'' =
     (Inl (EnvironmentError ''GROQ_API_KEY not found. Ensure your .env file is configured.''),
      [Log ''PlannerAgent'' CRITICAL ''GROQ_API_KEY is missing from environment variables.'' None])"
proof -
  have absent: "load_dotenv Map.empty [''PATH'' \<mapsto> ''/usr/bin''] ''GROQ_API_KEY'' = None"
    by (simp add: load_dotenv_def)
  from missing_credential_is_fatal [OF absent, of "\<lambda>a. None" "adk_leaving None" "\<lambda>v. []" "''What is Amazon S3?''"] absent
  show ?thesis by blast
qed

lemma map_of_write_output:
  assumes "output_key agent = Some key"
  shows "map_of (write_output agent output st) = (map_of st)(key \<mapsto> output)"
  using assms by (simp add: write_output_def update_conv')

text \<open>
  C9. The planner built by \<open>initialize_planner_agent\<close> has the output key
  \<open>planner_plan\<close> and the synthesizer built by \<open>initialize_synthesizer_agent\<close> the
  output key \<open>final_response\<close>. The synthesizer's write puts its answer under
  \<open>final_response\<close> and leaves the value of every other key of the session state as
  it was, the plan under \<open>planner_plan\<close> among them.
\<close>

theorem synthesizer_writes_only_final_response:
  assumes "fst (initialize_planner_agent construct dotenv environ) = Inr planner"
    and "fst (initialize_synthesizer_agent construct' dotenv' environ') = Inr synthesizer"
  shows "output_key planner = Some ''planner_plan'' \<and>
         output_key synthesizer = Some ''final_response'' \<and>
         map_of (write_output synthesizer answer st) ''final_response'' = Some answer \<and>
         (\<forall>key. key \<noteq> ''final_response'' \<longrightarrow>
            map_of (write_output synthesizer answer st) key = map_of st key) \<and>
         map_of (write_output synthesizer answer st) ''planner_plan'' = map_of st ''planner_plan''"
proof -
  from assms(1) have planner: "output_key planner = Some ''planner_plan''"
    by (auto simp: planner_agent_def dest: initialize_planner_agent_Inr)
  from assms(2) have synthesizer: "output_key synthesizer = Some ''final_response''"
    by (auto simp: synthesizer_agent_def dest: initialize_synthesizer_agent_Inr)
  have written: "map_of (write_output synthesizer answer st) = (map_of st)(''final_response'' \<mapsto> answer)"
    by (rule map_of_write_output [OF synthesizer])
  show ?thesis
    using planner synthesizer by (simp add: written)
qed

theorem synthesizer_writes_only_final_response_witness:
  "fst (initialize_planner_agent (\<lambda>agent. None) Map.empty [''GROQ_API_KEY'' \<mapsto> ''gsk_test''])
     = Inr (planner_agent ''gsk_test'') \<and>
   fst (initialize_synthesizer_agent (\<lambda>agent. None) Map.empty [''GROQ_API_KEY'' \<mapsto> ''gsk_test''])
     = Inr (synthesizer_agent ''gsk_test'') \<and>
   map_of (write_output (synthesizer_agent ''gsk_test'') (PStr ''Amazon S3 is an object store.'')
             [(''planner_plan'', PDict (model_dump \<lparr>query_type = ''definition'', sub_queries = [''s3'']\<rparr>))])
          ''planner_plan''
     = Some (PDict (model_dump \<lparr>query_type = ''definition'', sub_queries = [''s3'']\<rparr>)) \<and>
   map_of (write_output (synthesizer_agent ''gsk_test'') (PStr ''Amazon S3 is an object store.'')
             [(''planner_plan'', PDict (model_dump \<lparr>query_type = ''definition'', sub_queries = [''s3'']\<rparr>))])
          ''final_response''
     = Some (PStr ''Amazon S3 is an object store.'')"
proof -
  let ?st = "[(''planner_plan'', PDict (model_dump \<lparr>query_type = ''definition'', sub_queries = [''s3'']\<rparr>))]"
  have p: "fst (initialize_planner_agent (\<lambda>agent. None) Map.empty [''GROQ_API_KEY'' \<mapsto> ''gsk_test''])
             = Inr (planner_agent ''gsk_test'')"
    by (simp add: initialize_planner_agent_def load_dotenv_def Let_def)
  have s: "fst (initialize_synthesizer_agent (\<lambda>agent. None) Map.empty [''GROQ_API_KEY'' \<mapsto> ''gsk_test''])
             = Inr (synthesizer_agent ''gsk_test'')"
    by (simp add: initialize_synthesizer_agent_def load_dotenv_def Let_def)
  from synthesizer_writes_only_final_response [OF p s, of "PStr ''Amazon S3 is an object store.''" ?st]
  have "map_of (write_output (synthesizer_agent ''gsk_test'') (PStr ''Amazon S3 is an object store.'') ?st)
          ''final_response'' = Some (PStr ''Amazon S3 is an object store.'')"
    and "map_of (write_output (synthesizer_agent ''gsk_test'') (PStr ''Amazon S3 is an object store.'') ?st)
          ''planner_plan'' = map_of ?st ''planner_plan''"
    by blast+
  then show ?thesis
    using p s by simp
qed

section \<open>Properties of the runner\<close>







end
